theory Spec2Isabelle
  imports Main
begin

section \<open>Data model\<close>

text \<open>
  The chat list component (\<^verbatim>\<open>src/components/ChatList.tsx\<close>) consumes two record
  types declared elsewhere: \<^verbatim>\<open>Conversation\<close> (from the database service) and
  \<^verbatim>\<open>PDFDocument\<close> (from the PDF manager). Only the fields this component reads are
  modelled. A JavaScript string is a sequence of UTF-16 code units and \<^verbatim>\<open>length\<close>
  counts them; here a string is a list of \<^typ>\<open>char\<close>, one element per code unit.
  A \<^verbatim>\<open>Date\<close> is its time value in milliseconds since the epoch, an integer.
\<close>

record PDFDocument =
  pdf_id :: string
  pdf_name :: string

record Message =
  content :: string

record Conversation =
  conv_id :: string
  conv_name :: string
  pdfIds :: "string list"
  messages :: "Message list"
  createdAt :: int
  updatedAt :: int

text \<open>
  Every helper is an arrow function declared inside the component body, so it closes
  over the component's scope: the properties \<^verbatim>\<open>availablePDFs\<close> and
  \<^verbatim>\<open>selectedChat\<close>, the state variable \<^verbatim>\<open>chats\<close>, and the host environment that
  \<^verbatim>\<open>new Date()\<close> and \<^verbatim>\<open>toLocaleDateString\<close> consult (the clock and the locale).
  The scope is passed explicitly to every helper; what a helper reads from it is
  visible in its definition.
\<close>

record scope =
  availablePDFs :: "PDFDocument list"
  selectedChat :: "Conversation option"
  chats :: "Conversation list"
  now :: int
  toLocaleDateString :: "int \<Rightarrow> string"

text \<open>Exceptions: a \<^verbatim>\<open>TypeError\<close> of the language, or a value thrown by a collaborator.\<close>

datatype exn = TypeError | Thrown string

section \<open>JavaScript primitives used by the component\<close>

text \<open>\<^verbatim>\<open>xs[i]\<close>: the element, or \<^verbatim>\<open>undefined\<close> outside the array.\<close>

definition at_index :: "'a list \<Rightarrow> int \<Rightarrow> 'a option" where
  "at_index xs i = (if 0 \<le> i \<and> i < int (length xs) then Some (xs ! nat i) else None)"

text \<open>\<^verbatim>\<open>xs.some(p)\<close>.\<close>

primrec some :: "('a \<Rightarrow> bool) \<Rightarrow> 'a list \<Rightarrow> bool" where
  "some p [] = False"
| "some p (x # xs) = (if p x then True else some p xs)"

text \<open>
  \<^verbatim>\<open>Boolean(v)\<close> on a value of type \<^verbatim>\<open>string | undefined\<close>: \<^verbatim>\<open>undefined\<close> and the
  empty string are falsy, every other string is truthy.
\<close>

definition Boolean :: "string option \<Rightarrow> bool" where
  "Boolean v = (case v of None \<Rightarrow> False | Some s \<Rightarrow> s \<noteq> [])"

text \<open>
  The decimal rendering of an integer, as a template literal \<^verbatim>\<open>`${n}`\<close> produces it
  for the integers that occur here.
\<close>

fun digits :: "nat \<Rightarrow> string" where
  "digits n =
     (if n < 10 then [''0123456789'' ! n]
      else digits (n div 10) @ [''0123456789'' ! (n mod 10)])"

declare digits.simps [simp del]

definition numToString :: "int \<Rightarrow> string" where
  "numToString i = (if i < 0 then CHR ''-'' # digits (nat (- i)) else digits (nat i))"

section \<open>The display helpers\<close>

text \<open>
  \<^verbatim>\<open>truncateText(text, maxLength)\<close>. \<^verbatim>\<open>substring(0, e)\<close> treats a negative \<^verbatim>\<open>e\<close> as 0,
  which is what \<^term>\<open>nat\<close> does. \<^verbatim>\<open>maxLength\<close> is an integer (the component passes
  15 and 30).
\<close>

definition truncateText :: "scope \<Rightarrow> string \<Rightarrow> int \<Rightarrow> string" where
  "truncateText sc text maxLength =
     (if int (length text) \<le> maxLength then text
      else take (nat (maxLength - 3)) text @ ''...'')"

text \<open>
  \<^verbatim>\<open>getChatDisplayName(chat)\<close>. The non-null assertions \<^verbatim>\<open>existingPdfNames[i]!\<close> are
  erased at run time: were the element \<^verbatim>\<open>undefined\<close>, \<^verbatim>\<open>truncateText\<close> would read
  \<^verbatim>\<open>undefined.length\<close> and throw a \<^verbatim>\<open>TypeError\<close>.
\<close>

definition existingPdfNames :: "scope \<Rightarrow> Conversation \<Rightarrow> string option list" where
  "existingPdfNames sc chat =
     take 2 (filter Boolean
       (map (\<lambda>pdfId. map_option pdf_name
                (find (\<lambda>pdf. pdf_id pdf = pdfId) (availablePDFs sc)))
            (pdfIds chat)))"

definition totalExistingPdfs :: "scope \<Rightarrow> Conversation \<Rightarrow> nat" where
  "totalExistingPdfs sc chat =
     length (filter (\<lambda>pdfId. some (\<lambda>pdf. pdf_id pdf = pdfId) (availablePDFs sc))
       (pdfIds chat))"

definition getChatDisplayName :: "scope \<Rightarrow> Conversation \<Rightarrow> exn + string" where
  "getChatDisplayName sc chat =
     (if conv_name chat \<noteq> ''New Chat'' then Inr (truncateText sc (conv_name chat) 30)
      else
        let names = existingPdfNames sc chat in
        if length names = 0 then Inr ''New Chat''
        else if length names = 1 then
          (case Option.bind (at_index names 0) (\<lambda>v. v) of
             None \<Rightarrow> Inl TypeError
           | Some n0 \<Rightarrow> Inr (truncateText sc n0 30))
        else
          (case Option.bind (at_index names 0) (\<lambda>v. v) of
             None \<Rightarrow> Inl TypeError
           | Some n0 \<Rightarrow>
              (case Option.bind (at_index names 1) (\<lambda>v. v) of
                 None \<Rightarrow> Inl TypeError
               | Some n1 \<Rightarrow>
                  let firstPdf = truncateText sc n0 15;
                      secondPdf = truncateText sc n1 15;
                      total = totalExistingPdfs sc chat;
                      additionalCount =
                        (if total > 2 then '' +'' @ numToString (int total - 2) else '''')
                  in Inr (firstPdf @ '' + '' @ secondPdf @ additionalCount))))"

text \<open>
  \<^verbatim>\<open>getLastMessage(chat)\<close>. Reading \<^verbatim>\<open>.content\<close> of an \<^verbatim>\<open>undefined\<close> element
  throws a \<^verbatim>\<open>TypeError\<close>.
\<close>

definition getLastMessage :: "scope \<Rightarrow> Conversation \<Rightarrow> exn + string" where
  "getLastMessage sc chat =
     (if length (messages chat) = 0 then Inr ''No messages yet''
      else
        (case at_index (messages chat) (int (length (messages chat)) - 1) of
           None \<Rightarrow> Inl TypeError
         | Some lastMessage \<Rightarrow> Inr (truncateText sc (content lastMessage) 30)))"

text \<open>
  \<^verbatim>\<open>formatTime(date)\<close>. \<^verbatim>\<open>new Date()\<close> reads the clock (\<^term>\<open>now sc\<close>); on integers
  \<^verbatim>\<open>Math.floor(diff / k)\<close> is \<^term>\<open>diff div k\<close>, which rounds towards minus infinity
  as \<^verbatim>\<open>Math.floor\<close> does.
\<close>

definition formatTime :: "scope \<Rightarrow> int \<Rightarrow> string" where
  "formatTime sc date =
     (let diff = now sc - date;
          minutes = diff div 60000;
          hours = diff div 3600000;
          days = diff div 86400000
      in if minutes < 1 then ''Just now''
         else if minutes < 60 then numToString minutes @ ''m ago''
         else if hours < 24 then numToString hours @ ''h ago''
         else if days < 7 then numToString days @ ''d ago''
         else toLocaleDateString sc date)"

text \<open>
  The document-count badge of a chat item (the immediately invoked function in the
  \<^verbatim>\<open>chat-meta\<close> element): the number of linked documents present in
  \<^verbatim>\<open>availablePDFs\<close> when there is one, a "No PDFs selected" label when the chat has
  links but none of them is present, and nothing otherwise.
\<close>

datatype badge = PdfCount nat | NoPdfsSelected | NoBadge

definition existingPdfCount :: "scope \<Rightarrow> Conversation \<Rightarrow> nat" where
  "existingPdfCount sc chat =
     length (filter (\<lambda>pdfId. some (\<lambda>pdf. pdf_id pdf = pdfId) (availablePDFs sc))
       (pdfIds chat))"

definition pdfCountBadge :: "scope \<Rightarrow> Conversation \<Rightarrow> badge" where
  "pdfCountBadge sc chat =
     (if existingPdfCount sc chat > 0 then PdfCount (existingPdfCount sc chat)
      else if length (pdfIds chat) > 0 then NoPdfsSelected
      else NoBadge)"

section \<open>The event handlers\<close>

text \<open>
  The handlers act on the state variable \<^verbatim>\<open>chats\<close> and on the outside world. The
  outside world is a record of collaborators: what the awaited persistence calls
  settle to (\<^term>\<open>Inl\<close> or \<^term>\<open>Some\<close>: a rejection), the user's answer to
  \<^verbatim>\<open>window.confirm\<close>, and the parent's callbacks, which may throw. Every interaction
  is appended to a trace, in program order.
\<close>

datatype effect =
    StopPropagation
  | WindowConfirm string bool
  | GetConversations
  | DeleteConversation string
  | OnChatDelete string
  | OnChatSelect "Conversation option"
  | ConsoleError string
  | Alert string

record collaborators =
  getConversations :: "exn + Conversation list"
  deleteConversation :: "string \<Rightarrow> exn option"
  confirm :: "string \<Rightarrow> bool"
  onChatSelect :: "Conversation option \<Rightarrow> exn option"
  onChatDelete :: "(string \<Rightarrow> exn option) option"

record component =
  chatsState :: "Conversation list"
  trace :: "effect list"

type_synonym 'a action = "component \<Rightarrow> (exn + 'a) \<times> component"

definition unit_a :: "'a \<Rightarrow> 'a action" where
  "unit_a x = (\<lambda>s. (Inr x, s))"

definition bind_a :: "'a action \<Rightarrow> ('a \<Rightarrow> 'b action) \<Rightarrow> 'b action" where
  "bind_a m f = (\<lambda>s. case m s of (Inl e, s') \<Rightarrow> (Inl e, s') | (Inr x, s') \<Rightarrow> f x s')"

text \<open>\<^verbatim>\<open>try { m } catch (error) { h(error) }\<close>\<close>

definition try_catch :: "'a action \<Rightarrow> (exn \<Rightarrow> 'a action) \<Rightarrow> 'a action" where
  "try_catch m h = (\<lambda>s. case m s of (Inl e, s') \<Rightarrow> h e s' | (Inr x, s') \<Rightarrow> (Inr x, s'))"

text \<open>An interaction that cannot fail, and one that completes or throws.\<close>

definition emit :: "effect \<Rightarrow> unit action" where
  "emit ev = (\<lambda>s. (Inr (), s\<lparr>trace := trace s @ [ev]\<rparr>))"

definition call :: "effect \<Rightarrow> exn option \<Rightarrow> unit action" where
  "call ev r = (\<lambda>s. (case r of None \<Rightarrow> Inr () | Some e \<Rightarrow> Inl e, s\<lparr>trace := trace s @ [ev]\<rparr>))"

definition windowConfirm :: "collaborators \<Rightarrow> string \<Rightarrow> bool action" where
  "windowConfirm co msg =
     (\<lambda>s. (Inr (confirm co msg), s\<lparr>trace := trace s @ [WindowConfirm msg (confirm co msg)]\<rparr>))"

definition awaitGetConversations :: "collaborators \<Rightarrow> (Conversation list) action" where
  "awaitGetConversations co = (\<lambda>s. (getConversations co, s\<lparr>trace := trace s @ [GetConversations]\<rparr>))"

definition setChats :: "(Conversation list \<Rightarrow> Conversation list) \<Rightarrow> unit action" where
  "setChats f = (\<lambda>s. (Inr (), s\<lparr>chatsState := f (chatsState s)\<rparr>))"

definition loadChats :: "collaborators \<Rightarrow> unit action" where
  "loadChats co =
     try_catch
       (bind_a (awaitGetConversations co) (\<lambda>loadedChats. setChats (\<lambda>_. loadedChats)))
       (\<lambda>error. emit (ConsoleError ''Error loading chats:''))"

definition confirmMessage :: string where
  "confirmMessage = ''Are you sure you want to delete this chat? This action cannot be undone.''"

definition failureMessage :: string where
  "failureMessage = ''Failed to delete chat. Please try again.''"

definition handleDeleteChat :: "scope \<Rightarrow> collaborators \<Rightarrow> string \<Rightarrow> unit action" where
  "handleDeleteChat sc co chatId =
     bind_a (emit StopPropagation) (\<lambda>_.
     bind_a (windowConfirm co confirmMessage) (\<lambda>confirmed.
       if confirmed then
         try_catch
           (bind_a (call (DeleteConversation chatId) (deleteConversation co chatId)) (\<lambda>_.
            bind_a (setChats (filter (\<lambda>chat. conv_id chat \<noteq> chatId))) (\<lambda>_.
            bind_a (case onChatDelete co of
                      None \<Rightarrow> unit_a ()
                    | Some cb \<Rightarrow> call (OnChatDelete chatId) (cb chatId)) (\<lambda>_.
            if map_option conv_id (selectedChat sc) = Some chatId
            then call (OnChatSelect None) (onChatSelect co None)
            else unit_a ()))))
           (\<lambda>error.
              bind_a (emit (ConsoleError ''Error deleting chat:'')) (\<lambda>_.
              emit (Alert failureMessage)))
       else unit_a ()))"

text \<open>The interactions a run of an action adds to the trace.\<close>

definition emitted :: "'a action \<Rightarrow> component \<Rightarrow> effect list" where
  "emitted m s = drop (length (trace s)) (trace (snd (m s)))"

section \<open>Notions of the specification\<close>

text \<open>
  The linked documents of a conversation that exist in \<^verbatim>\<open>availablePDFs\<close>, one per
  link, in link order; a link is dangling when no available document has its id.
\<close>

definition dangling :: "scope \<Rightarrow> string \<Rightarrow> bool" where
  "dangling sc pdfId = (pdfId \<notin> pdf_id ` set (availablePDFs sc))"

definition existingLinked :: "scope \<Rightarrow> Conversation \<Rightarrow> PDFDocument list" where
  "existingLinked sc chat =
     List.map_filter (\<lambda>pdfId. find (\<lambda>pdf. pdf_id pdf = pdfId) (availablePDFs sc)) (pdfIds chat)"

definition withoutDangling :: "scope \<Rightarrow> Conversation \<Rightarrow> Conversation" where
  "withoutDangling sc chat = chat\<lparr>pdfIds := filter (\<lambda>pdfId. \<not> dangling sc pdfId) (pdfIds chat)\<rparr>"

text \<open>The display name as the specification words it.\<close>

definition specDisplayName :: "scope \<Rightarrow> Conversation \<Rightarrow> string" where
  "specDisplayName sc chat =
     (if conv_name chat = ''New Chat'' then
        (case existingLinked sc chat of
           [] \<Rightarrow> ''New Chat''
         | [d] \<Rightarrow> truncateText sc (pdf_name d) 30
         | d1 # d2 # _ \<Rightarrow>
             truncateText sc (pdf_name d1) 15 @ '' + '' @ truncateText sc (pdf_name d2) 15 @
             (if length (existingLinked sc chat) > 2
              then '' +'' @ numToString (int (length (existingLinked sc chat)) - 2)
              else ''''))
      else truncateText sc (conv_name chat) 30)"

section \<open>Sample data\<close>

definition sampleScope :: scope where
  "sampleScope =
     \<lparr> availablePDFs =
         [\<lparr>pdf_id = ''p1'', pdf_name = ''Contracts.pdf''\<rparr>,
          \<lparr>pdf_id = ''p2'', pdf_name = ''Torts outline and case briefs.pdf''\<rparr>,
          \<lparr>pdf_id = ''p3'', pdf_name = ''''\<rparr>,
          \<lparr>pdf_id = ''p4'', pdf_name = ''Evidence.pdf''\<rparr>],
       selectedChat = None,
       chats = [],
       now = 1000000000,
       toLocaleDateString = (\<lambda>t. ''date '' @ numToString t) \<rparr>"

definition sampleChat :: "string \<Rightarrow> string list \<Rightarrow> string list \<Rightarrow> Conversation" where
  "sampleChat nm ids msgs =
     \<lparr> conv_id = ''c1'', conv_name = nm, pdfIds = ids,
       messages = map (\<lambda>m. \<lparr>content = m\<rparr>) msgs, createdAt = 0, updatedAt = 0 \<rparr>"

definition unnamedDocChat :: Conversation where
  "unnamedDocChat = sampleChat ''New Chat'' [''p3''] []"

definition danglingOnlyChat :: Conversation where
  "danglingOnlyChat = sampleChat ''New Chat'' [''gone''] []"

definition threeDocChat :: Conversation where
  "threeDocChat = sampleChat ''New Chat'' [''p1'', ''gone'', ''p2'', ''p4'']
     [''hello'', ''what is consideration in contract law?'']"

definition sampleCollaborators :: "bool \<Rightarrow> bool \<Rightarrow> collaborators" where
  "sampleCollaborators answer ok =
     \<lparr> getConversations = (if ok then Inr [threeDocChat] else Inl (Thrown ''offline'')),
       deleteConversation = (\<lambda>i. if ok then None else Some (Thrown ''offline'')),
       confirm = (\<lambda>m. answer),
       onChatSelect = (\<lambda>c. None),
       onChatDelete = Some (\<lambda>i. None) \<rparr>"

definition sampleComponent :: component where
  "sampleComponent =
     \<lparr> chatsState = [threeDocChat, danglingOnlyChat\<lparr>conv_id := ''c2''\<rparr>], trace = [] \<rparr>"

section \<open>Auxiliary facts\<close>

subsection \<open>Array primitives\<close>

lemma some_iff_find: "some p xs = (find p xs \<noteq> None)"
  by (induction xs) auto

lemma some_iff_set: "some p xs = (\<exists>x \<in> set xs. p x)"
  by (induction xs) auto

lemma some_id_iff_not_dangling:
  "some (\<lambda>pdf. pdf_id pdf = i) (availablePDFs sc) = (\<not> dangling sc i)"
  by (auto simp: some_iff_set dangling_def)

lemma find_dangling:
  "dangling sc i \<Longrightarrow> find (\<lambda>pdf. pdf_id pdf = i) (availablePDFs sc) = None"
  by (auto simp: find_None_iff dangling_def)

lemma at_index_map_Some:
  "i < length ns \<Longrightarrow> at_index (map Some ns) (int i) = Some (Some (ns ! i))"
  by (simp add: at_index_def)

subsection \<open>Names and counts in terms of the existing linked documents\<close>

lemma names_of_links:
  "filter Boolean (map (\<lambda>i. map_option pdf_name (f i)) ids) =
   map Some (filter (\<lambda>n. n \<noteq> []) (map pdf_name (List.map_filter f ids)))"
  by (induction ids) (auto simp: map_filter_simps Boolean_def split: option.splits)

lemma existingPdfNames_linked:
  "existingPdfNames sc chat =
   map Some (take 2 (filter (\<lambda>n. n \<noteq> []) (map pdf_name (existingLinked sc chat))))"
  by (simp add: existingPdfNames_def existingLinked_def names_of_links take_map)

lemma count_of_links:
  "length (filter (\<lambda>i. f i \<noteq> None) ids) = length (List.map_filter f ids)"
  by (induction ids) (auto simp: map_filter_simps split: option.splits)

lemma totalExistingPdfs_linked:
  "totalExistingPdfs sc chat = length (existingLinked sc chat)"
  unfolding totalExistingPdfs_def existingLinked_def some_iff_find
  by (rule count_of_links)

subsection \<open>Removing the dangling links\<close>

lemma names_without_dangling:
  "filter Boolean
     (map (\<lambda>i. map_option pdf_name (find (\<lambda>pdf. pdf_id pdf = i) (availablePDFs sc)))
        (filter (\<lambda>i. \<not> dangling sc i) ids)) =
   filter Boolean
     (map (\<lambda>i. map_option pdf_name (find (\<lambda>pdf. pdf_id pdf = i) (availablePDFs sc))) ids)"
  by (induction ids) (auto simp: Boolean_def find_dangling)

lemma existingPdfNames_withoutDangling:
  "existingPdfNames sc (withoutDangling sc chat) = existingPdfNames sc chat"
  by (simp add: existingPdfNames_def withoutDangling_def names_without_dangling)

lemma totalExistingPdfs_withoutDangling:
  "totalExistingPdfs sc (withoutDangling sc chat) = totalExistingPdfs sc chat"
  by (simp add: totalExistingPdfs_def withoutDangling_def some_id_iff_not_dangling)

lemma existingPdfCount_not_dangling:
  "existingPdfCount sc chat = length (filter (\<lambda>i. \<not> dangling sc i) (pdfIds chat))"
  by (simp add: existingPdfCount_def some_id_iff_not_dangling)

subsection \<open>Floor division against the bucket bounds\<close>

lemma int_div_less_iff:
  fixes d k n :: int
  assumes "0 < k"
  shows "(d div k < n) = (d < n * k)"
proof -
  have "(d - n * k) div k = d div k - n"
    using assms div_mult_self1 [of k d "- n"] by simp
  moreover have "((d - n * k) div k < 0) = (d - n * k < 0)"
    using assms by (rule pos_imp_zdiv_neg_iff)
  ultimately show ?thesis by linarith
qed

lemma div_buckets:
  fixes d :: int
  shows "(d div 60000 < 1) = (d < 60000)"
    and "(d div 60000 < 60) = (d < 3600000)"
    and "(d div 3600000 < 24) = (d < 86400000)"
    and "(d div 86400000 < 7) = (d < 604800000)"
  by (simp_all add: int_div_less_iff)

subsection \<open>Runs of the handlers\<close>

lemmas action_defs = unit_a_def bind_a_def try_catch_def emit_def call_def windowConfirm_def
  awaitGetConversations_def setChats_def

lemma handleDeleteChat_declined:
  assumes "\<not> confirm co confirmMessage"
  shows "handleDeleteChat sc co chatId s =
         (Inr (), s\<lparr>trace := trace s @ [StopPropagation, WindowConfirm confirmMessage False]\<rparr>)"
  using assms by (simp add: handleDeleteChat_def action_defs)

lemma handleDeleteChat_confirmed_prefix:
  assumes "confirm co confirmMessage"
  shows "\<exists>rest. emitted (handleDeleteChat sc co chatId) s =
           StopPropagation # WindowConfirm confirmMessage True # DeleteConversation chatId # rest"
  using assms
  by (auto simp: handleDeleteChat_def action_defs emitted_def
      split: option.splits sum.splits prod.splits)

lemma handleDeleteChat_rejected:
  assumes "confirm co confirmMessage" and "deleteConversation co chatId = Some err"
  shows "handleDeleteChat sc co chatId s =
         (Inr (), s\<lparr>trace := trace s @
            [StopPropagation, WindowConfirm confirmMessage True, DeleteConversation chatId,
             ConsoleError ''Error deleting chat:'', Alert failureMessage]\<rparr>)"
  using assms by (simp add: handleDeleteChat_def action_defs)

lemma handleDeleteChat_returns: "fst (handleDeleteChat sc co chatId s) = Inr ()"
  by (auto simp: handleDeleteChat_def action_defs
      split: option.splits sum.splits prod.splits)

lemma loadChats_returns: "fst (loadChats co s) = Inr ()"
  by (auto simp: loadChats_def action_defs split: sum.splits prod.splits)

lemma loadChats_failed:
  "getConversations co = Inl e \<Longrightarrow>
   loadChats co s =
     (Inr (), s\<lparr>trace := trace s @ [GetConversations, ConsoleError ''Error loading chats:'']\<rparr>)"
  by (simp add: loadChats_def action_defs)

lemma sample_confirmed_run:
  "emitted (handleDeleteChat sampleScope (sampleCollaborators True True) ''c1'') sampleComponent =
     [StopPropagation, WindowConfirm confirmMessage True, DeleteConversation ''c1'',
      OnChatDelete ''c1'']"
  by (simp add: emitted_def handleDeleteChat_def action_defs sampleCollaborators_def
      sampleComponent_def sampleScope_def)

subsection \<open>The sample conversation\<close>

lemma sample_linked:
  "existingLinked sampleScope threeDocChat =
     [\<lparr>pdf_id = ''p1'', pdf_name = ''Contracts.pdf''\<rparr>,
      \<lparr>pdf_id = ''p2'', pdf_name = ''Torts outline and case briefs.pdf''\<rparr>,
      \<lparr>pdf_id = ''p4'', pdf_name = ''Evidence.pdf''\<rparr>]"
  by (simp add: existingLinked_def sampleScope_def threeDocChat_def sampleChat_def
      map_filter_simps)

section \<open>Truncation\<close>

text \<open>
  Claim C9. \<^verbatim>\<open>truncateText\<close> returns the text unchanged when its length is at most
  \<^verbatim>\<open>maxLength\<close>. Otherwise it returns the first \<^verbatim>\<open>maxLength - 3\<close> code units
  followed by three dots; for \<^verbatim>\<open>maxLength\<close> of 3 or more that result has exactly
  \<^verbatim>\<open>maxLength\<close> code units, so the result never exceeds \<^verbatim>\<open>maxLength\<close>. Below 3 the
  result is the three dots alone, longer than \<^verbatim>\<open>maxLength\<close>: the edge the claim names.
\<close>

theorem truncateText_length:
  "(int (length text) \<le> maxLength \<longrightarrow> truncateText sc text maxLength = text) \<and>
   (maxLength < int (length text) \<longrightarrow>
      truncateText sc text maxLength = take (nat (maxLength - 3)) text @ ''...'' \<and>
      (3 \<le> maxLength \<longrightarrow> int (length (truncateText sc text maxLength)) = maxLength) \<and>
      (maxLength < 3 \<longrightarrow> truncateText sc text maxLength = ''...'')) \<and>
   (3 \<le> maxLength \<longrightarrow> int (length (truncateText sc text maxLength)) \<le> maxLength)"
  by (auto simp: truncateText_def)

theorem truncateText_length_witness:
  "int (length ''hello'') \<le> 10 \<and> truncateText sampleScope ''hello'' 10 = ''hello'' \<and>
   8 < int (length ''hello world'') \<and>
   truncateText sampleScope ''hello world'' 8 = ''hello...'' \<and>
   int (length (truncateText sampleScope ''hello world'' 8)) = 8 \<and>
   2 < int (length ''hello'') \<and> truncateText sampleScope ''hello'' 2 = ''...''"
  using truncateText_length [of "''hello''" 10 sampleScope]
    truncateText_length [of "''hello world''" 8 sampleScope]
    truncateText_length [of "''hello''" 2 sampleScope]
  by simp

section \<open>The display name\<close>

text \<open>
  Claim C1, as amended. A conversation whose stored name is not "New Chat" displays its
  own name truncated to 30. A conversation named "New Chat" displays the name the
  specification composes from its linked documents that exist in \<^verbatim>\<open>availablePDFs\<close>
  ("New Chat" for none, the name truncated to 30 for one, the first two names truncated
  to 15 and joined by " + " for more, with " +k" for the k documents beyond two),
  provided neither of the first two existing linked documents has an empty name.
\<close>

theorem getChatDisplayName_autoname:
  assumes "conv_name chat = ''New Chat'' \<longrightarrow>
           (\<forall>d \<in> set (take 2 (existingLinked sc chat)). pdf_name d \<noteq> [])"
  shows "getChatDisplayName sc chat = Inr (specDisplayName sc chat)"
proof (cases "conv_name chat = ''New Chat''")
  case False
  then show ?thesis by (simp add: getChatDisplayName_def specDisplayName_def)
next
  case True
  with assms have ne: "\<forall>d \<in> set (take 2 (existingLinked sc chat)). pdf_name d \<noteq> []"
    by simp
  show ?thesis
  proof (cases "existingLinked sc chat")
    case Nil
    then show ?thesis
      using True
      by (simp add: getChatDisplayName_def specDisplayName_def existingPdfNames_linked)
  next
    case (Cons d1 rest)
    note first = Cons
    show ?thesis
    proof (cases rest)
      case Nil
      with first ne True show ?thesis
        by (simp add: getChatDisplayName_def specDisplayName_def existingPdfNames_linked
            at_index_def)
    next
      case (Cons d2 rest')
      have two: "\<And>a b xs. take 2 (a # b # xs) = [a, b]"
        by (simp add: numeral_2_eq_2)
      from first Cons ne have "pdf_name d1 \<noteq> []" "pdf_name d2 \<noteq> []"
        by (auto simp: two)
      with first Cons True show ?thesis
        by (simp add: getChatDisplayName_def specDisplayName_def existingPdfNames_linked
            totalExistingPdfs_linked at_index_def two Let_def)
    qed
  qed
qed

theorem getChatDisplayName_autoname_witness:
  "conv_name threeDocChat = ''New Chat'' \<and>
   map pdf_name (take 2 (existingLinked sampleScope threeDocChat)) =
     [''Contracts.pdf'', ''Torts outline and case briefs.pdf''] \<and>
   getChatDisplayName sampleScope threeDocChat = Inr ''Contracts.pdf + Torts outlin... +1'' \<and>
   getChatDisplayName sampleScope
     (threeDocChat\<lparr>conv_name := ''Consideration and promissory estoppel''\<rparr>) =
     Inr ''Consideration and promissor...''"
proof -
  have n: "conv_name threeDocChat = ''New Chat''"
    by (simp add: threeDocChat_def sampleChat_def)
  have t: "take 2 (existingLinked sampleScope threeDocChat) =
     [\<lparr>pdf_id = ''p1'', pdf_name = ''Contracts.pdf''\<rparr>,
      \<lparr>pdf_id = ''p2'', pdf_name = ''Torts outline and case briefs.pdf''\<rparr>]"
    by (simp add: sample_linked)
  have h: "conv_name threeDocChat = ''New Chat'' \<longrightarrow>
     (\<forall>d \<in> set (take 2 (existingLinked sampleScope threeDocChat)). pdf_name d \<noteq> [])"
    by (simp add: t)
  have s: "specDisplayName sampleScope threeDocChat = ''Contracts.pdf + Torts outlin... +1''"
    by (simp add: specDisplayName_def n sample_linked truncateText_def numToString_def
        digits.simps)
  have o: "getChatDisplayName sampleScope
       (threeDocChat\<lparr>conv_name := ''Consideration and promissory estoppel''\<rparr>) =
     Inr ''Consideration and promissor...''"
    using getChatDisplayName_autoname
      [of "threeDocChat\<lparr>conv_name := ''Consideration and promissory estoppel''\<rparr>" sampleScope]
    by (simp add: specDisplayName_def truncateText_def)
  show ?thesis
    using n t s o getChatDisplayName_autoname [OF h] by simp
qed

text \<open>
  The claim as first stated has no proviso, and fails without it: the array of names
  is filtered by truthiness, which drops an existing document whose name is empty. A
  "New Chat" conversation linked to one existing, unnamed document displays "New Chat",
  not that document's (empty) name.
\<close>

theorem getChatDisplayName_unnamed_document_counterexample:
  "conv_name unnamedDocChat = ''New Chat'' \<and>
   existingLinked sampleScope unnamedDocChat = [\<lparr>pdf_id = ''p3'', pdf_name = ''''\<rparr>] \<and>
   specDisplayName sampleScope unnamedDocChat = '''' \<and>
   getChatDisplayName sampleScope unnamedDocChat = Inr ''New Chat'' \<and>
   getChatDisplayName sampleScope unnamedDocChat \<noteq>
     Inr (specDisplayName sampleScope unnamedDocChat)"
  by (simp add: getChatDisplayName_def specDisplayName_def existingPdfNames_def
      existingLinked_def sampleScope_def unnamedDocChat_def sampleChat_def Boolean_def
      map_filter_simps truncateText_def)

section \<open>The preview\<close>

text \<open>
  Claim C7. The preview of a conversation is "No messages yet" when its message list is
  empty, and otherwise the content of the last message truncated to 30.
\<close>

theorem getLastMessage_preview:
  "getLastMessage sc chat =
     Inr (if messages chat = [] then ''No messages yet''
          else truncateText sc (content (last (messages chat))) 30)"
  by (auto simp: getLastMessage_def at_index_def last_conv_nth nat_diff_distrib
      nat_minus_as_int)

theorem getLastMessage_preview_witness:
  "messages unnamedDocChat = [] \<and>
   getLastMessage sampleScope unnamedDocChat = Inr ''No messages yet'' \<and>
   content (last (messages threeDocChat)) = ''what is consideration in contract law?'' \<and>
   getLastMessage sampleScope threeDocChat = Inr ''what is consideration in co...''"
  using getLastMessage_preview [of sampleScope unnamedDocChat]
    getLastMessage_preview [of sampleScope threeDocChat]
  by (simp add: unnamedDocChat_def threeDocChat_def sampleChat_def truncateText_def)

section \<open>The relative time\<close>

text \<open>
  Claim C2. With the difference between the current time and the date taken in
  milliseconds, \<^verbatim>\<open>formatTime\<close> returns "Just now" under one minute, the whole
  number of elapsed minutes followed by "m ago" under 60 minutes, the whole number of
  elapsed hours followed by "h ago" under 24 hours, the whole number of elapsed days
  followed by "d ago" under 7 days, and the locale date string otherwise.
\<close>

theorem formatTime_buckets:
  "(now sc - date < 60000 \<longrightarrow> formatTime sc date = ''Just now'') \<and>
   (60000 \<le> now sc - date \<and> now sc - date < 3600000 \<longrightarrow>
      formatTime sc date = numToString ((now sc - date) div 60000) @ ''m ago'') \<and>
   (3600000 \<le> now sc - date \<and> now sc - date < 86400000 \<longrightarrow>
      formatTime sc date = numToString ((now sc - date) div 3600000) @ ''h ago'') \<and>
   (86400000 \<le> now sc - date \<and> now sc - date < 604800000 \<longrightarrow>
      formatTime sc date = numToString ((now sc - date) div 86400000) @ ''d ago'') \<and>
   (604800000 \<le> now sc - date \<longrightarrow> formatTime sc date = toLocaleDateString sc date)"
  by (simp add: formatTime_def Let_def div_buckets)

theorem formatTime_buckets_witness:
  "now sampleScope - 999990000 < 60000 \<and>
   formatTime sampleScope 999990000 = ''Just now'' \<and>
   60000 \<le> now sampleScope - 999000000 \<and> now sampleScope - 999000000 < 3600000 \<and>
   formatTime sampleScope 999000000 = ''16m ago'' \<and>
   3600000 \<le> now sampleScope - 990000000 \<and> now sampleScope - 990000000 < 86400000 \<and>
   formatTime sampleScope 990000000 = ''2h ago'' \<and>
   86400000 \<le> now sampleScope - 800000000 \<and> now sampleScope - 800000000 < 604800000 \<and>
   formatTime sampleScope 800000000 = ''2d ago'' \<and>
   604800000 \<le> now sampleScope - 0 \<and>
   formatTime sampleScope 0 = ''date 0''"
  using formatTime_buckets [of sampleScope 999990000]
    formatTime_buckets [of sampleScope 999000000]
    formatTime_buckets [of sampleScope 990000000]
    formatTime_buckets [of sampleScope 800000000]
    formatTime_buckets [of sampleScope 0]
  by (simp add: sampleScope_def numToString_def digits.simps)

section \<open>Guarded reads\<close>

text \<open>
  Claim C10. The partial operations of the derivation helpers are guarded:
  \<^verbatim>\<open>getLastMessage\<close> indexes the message list only when it is non-empty, and
  \<^verbatim>\<open>getChatDisplayName\<close> reads the first and the second existing name only under
  length checks that guarantee them. In the model a read of a missing element is the
  only source of an exception in these helpers, so neither helper ever throws: each
  returns a string for every scope and every conversation.
\<close>

theorem helpers_never_read_missing_element:
  "(\<exists>s. getChatDisplayName sc chat = Inr s) \<and> (\<exists>s. getLastMessage sc chat = Inr s)"
proof
  obtain ns where ns: "existingPdfNames sc chat = map Some ns"
    using existingPdfNames_linked by blast
  have a0: "0 < length ns \<Longrightarrow> at_index (map Some ns) 0 = Some (Some (ns ! 0))"
    using at_index_map_Some [of 0 ns] by simp
  have a1: "1 < length ns \<Longrightarrow> at_index (map Some ns) 1 = Some (Some (ns ! 1))"
    using at_index_map_Some [of 1 ns] by simp
  have "length ns = 0 \<or> length ns = 1 \<or> 1 < length ns" by arith
  then show "\<exists>s. getChatDisplayName sc chat = Inr s"
    using a0 a1 by (auto simp: getChatDisplayName_def ns Let_def)
next
  show "\<exists>s. getLastMessage sc chat = Inr s"
    by (simp add: getLastMessage_def at_index_def)
qed

theorem helpers_never_read_missing_element_witness:
  "getChatDisplayName sampleScope threeDocChat \<noteq> Inl TypeError \<and>
   getLastMessage sampleScope threeDocChat \<noteq> Inl TypeError"
  using helpers_never_read_missing_element [of sampleScope threeDocChat] by auto

section \<open>What the helpers depend on\<close>

text \<open>
  Claim C5, as amended. \<^verbatim>\<open>truncateText\<close> and \<^verbatim>\<open>getLastMessage\<close> depend on
  their arguments alone, and \<^verbatim>\<open>getChatDisplayName\<close> on its argument and
  \<^verbatim>\<open>availablePDFs\<close> alone: nothing else in the scope changes their result.
  \<^verbatim>\<open>formatTime\<close> is not a function of its argument, because it reads the clock:
  two invocations with equal arguments return equal results whenever the current time
  and the host's locale date formatting are the same, and may return different results
  otherwise.
\<close>

theorem helpers_depend_only_on_inputs:
  "truncateText sc text n = truncateText sc' text n \<and>
   getLastMessage sc chat = getLastMessage sc' chat \<and>
   (availablePDFs sc = availablePDFs sc' \<longrightarrow>
      getChatDisplayName sc chat = getChatDisplayName sc' chat) \<and>
   (now sc = now sc' \<and> toLocaleDateString sc = toLocaleDateString sc' \<longrightarrow>
      formatTime sc date = formatTime sc' date)"
proof -
  have t: "truncateText sc = truncateText sc'"
    by (intro ext) (simp add: truncateText_def)
  have l: "getLastMessage sc chat = getLastMessage sc' chat"
    by (simp only: getLastMessage_def t)
  have n: "getChatDisplayName sc chat = getChatDisplayName sc' chat"
    if "availablePDFs sc = availablePDFs sc'"
    using that
    by (simp only: getChatDisplayName_def existingPdfNames_def totalExistingPdfs_def t)
  have f: "formatTime sc date = formatTime sc' date"
    if "now sc = now sc'" "toLocaleDateString sc = toLocaleDateString sc'"
    using that by (simp only: formatTime_def)
  from t l n f show ?thesis by simp
qed

theorem helpers_depend_only_on_inputs_witness:
  "availablePDFs sampleScope =
     availablePDFs (sampleScope\<lparr>chats := [threeDocChat], now := 5\<rparr>) \<and>
   getChatDisplayName sampleScope threeDocChat =
     getChatDisplayName (sampleScope\<lparr>chats := [threeDocChat], now := 5\<rparr>) threeDocChat \<and>
   now sampleScope = now (sampleScope\<lparr>availablePDFs := []\<rparr>) \<and>
   toLocaleDateString sampleScope = toLocaleDateString (sampleScope\<lparr>availablePDFs := []\<rparr>) \<and>
   formatTime sampleScope 0 = formatTime (sampleScope\<lparr>availablePDFs := []\<rparr>) 0"
  using helpers_depend_only_on_inputs
      [of sampleScope _ _ "sampleScope\<lparr>chats := [threeDocChat], now := 5\<rparr>" threeDocChat 0]
    helpers_depend_only_on_inputs
      [of sampleScope _ _ "sampleScope\<lparr>availablePDFs := []\<rparr>" threeDocChat 0]
  by simp

text \<open>
  The claim as first stated counts \<^verbatim>\<open>formatTime\<close> among the pure helpers. Two
  invocations with the same date and the same \<^verbatim>\<open>availablePDFs\<close>, one minute apart,
  return different strings.
\<close>

theorem formatTime_reads_clock_counterexample:
  "availablePDFs (sampleScope\<lparr>now := 0\<rparr>) = availablePDFs (sampleScope\<lparr>now := 60000\<rparr>) \<and>
   formatTime (sampleScope\<lparr>now := 0\<rparr>) 0 = ''Just now'' \<and>
   formatTime (sampleScope\<lparr>now := 60000\<rparr>) 0 = ''1m ago'' \<and>
   formatTime (sampleScope\<lparr>now := 0\<rparr>) 0 \<noteq> formatTime (sampleScope\<lparr>now := 60000\<rparr>) 0"
  by (simp add: formatTime_def sampleScope_def numToString_def digits.simps)

section \<open>Dangling links\<close>

text \<open>
  Claim C6, as amended. Dangling links contribute nothing to the display name (removing
  them leaves it unchanged) and are excluded from the displayed document count, which
  counts exactly the links whose document is present in \<^verbatim>\<open>availablePDFs\<close>; when that
  count is positive the badge shows it, with or without the dangling links. The badge
  as a whole does not ignore them: when no linked document is present, it reads "No
  PDFs selected" if the conversation has links (all of them dangling) and is absent
  if it has none.
\<close>

theorem dangling_links_ignored:
  "getChatDisplayName sc (withoutDangling sc chat) = getChatDisplayName sc chat \<and>
   existingPdfCount sc chat = length (filter (\<lambda>i. \<not> dangling sc i) (pdfIds chat)) \<and>
   existingPdfCount sc (withoutDangling sc chat) = existingPdfCount sc chat \<and>
   (0 < existingPdfCount sc chat \<longrightarrow>
      pdfCountBadge sc chat = PdfCount (existingPdfCount sc chat) \<and>
      pdfCountBadge sc (withoutDangling sc chat) = pdfCountBadge sc chat) \<and>
   (existingPdfCount sc chat = 0 \<longrightarrow>
      pdfCountBadge sc chat = (if pdfIds chat = [] then NoBadge else NoPdfsSelected))"
proof -
  have n: "getChatDisplayName sc (withoutDangling sc chat) = getChatDisplayName sc chat"
    unfolding getChatDisplayName_def existingPdfNames_withoutDangling
      totalExistingPdfs_withoutDangling
    by (simp add: withoutDangling_def)
  have c: "existingPdfCount sc (withoutDangling sc chat) = existingPdfCount sc chat"
    by (simp add: existingPdfCount_not_dangling) (simp add: withoutDangling_def)
  show ?thesis
    using n c existingPdfCount_not_dangling [of sc chat]
    by (simp add: pdfCountBadge_def)
qed

theorem dangling_links_ignored_witness:
  "filter (dangling sampleScope) (pdfIds threeDocChat) = [''gone''] \<and>
   getChatDisplayName sampleScope (withoutDangling sampleScope threeDocChat) =
     getChatDisplayName sampleScope threeDocChat \<and>
   0 < existingPdfCount sampleScope threeDocChat \<and>
   pdfCountBadge sampleScope threeDocChat = PdfCount 3 \<and>
   pdfCountBadge sampleScope (withoutDangling sampleScope threeDocChat) = PdfCount 3 \<and>
   existingPdfCount sampleScope danglingOnlyChat = 0 \<and>
   pdfCountBadge sampleScope danglingOnlyChat = NoPdfsSelected"
proof -
  have d: "filter (dangling sampleScope) (pdfIds threeDocChat) = [''gone'']"
    by (simp add: dangling_def sampleScope_def threeDocChat_def sampleChat_def)
  have c: "existingPdfCount sampleScope threeDocChat = 3"
    by (simp add: existingPdfCount_def sampleScope_def threeDocChat_def sampleChat_def)
  have z: "existingPdfCount sampleScope danglingOnlyChat = 0"
    by (simp add: existingPdfCount_def sampleScope_def danglingOnlyChat_def sampleChat_def)
  have p: "pdfIds danglingOnlyChat \<noteq> []"
    by (simp add: danglingOnlyChat_def sampleChat_def)
  show ?thesis
    using d c z p dangling_links_ignored [of sampleScope threeDocChat]
      dangling_links_ignored [of sampleScope danglingOnlyChat]
    by simp
qed

text \<open>
  The claim as first stated has every derivation ignore the dangling links. The badge
  of a conversation whose only link is dangling differs from the badge of the same
  conversation with that link removed.
\<close>

theorem dangling_links_badge_counterexample:
  "pdfIds danglingOnlyChat = [''gone''] \<and> dangling sampleScope ''gone'' \<and>
   pdfCountBadge sampleScope danglingOnlyChat = NoPdfsSelected \<and>
   pdfCountBadge sampleScope (withoutDangling sampleScope danglingOnlyChat) = NoBadge \<and>
   pdfCountBadge sampleScope (withoutDangling sampleScope danglingOnlyChat) \<noteq>
     pdfCountBadge sampleScope danglingOnlyChat"
  by (simp add: pdfCountBadge_def existingPdfCount_def withoutDangling_def dangling_def
      sampleScope_def danglingOnlyChat_def sampleChat_def)

section \<open>Deleting a chat\<close>

text \<open>
  Claim C3. The persistence deletion is invoked only after the user confirms: wherever
  a run of the delete handler calls \<^verbatim>\<open>deleteConversation\<close>, the user has answered
  the confirmation with yes, earlier in that run. If the user declines, the run
  consists of stopping the event's propagation and asking: no deletion call is made,
  the chat list is unchanged and neither \<^verbatim>\<open>onChatDelete\<close> nor \<^verbatim>\<open>onChatSelect\<close> is
  invoked.
\<close>

theorem handleDeleteChat_requires_confirmation:
  "(\<not> confirm co confirmMessage \<longrightarrow>
      fst (handleDeleteChat sc co chatId s) = Inr () \<and>
      chatsState (snd (handleDeleteChat sc co chatId s)) = chatsState s \<and>
      emitted (handleDeleteChat sc co chatId) s =
        [StopPropagation, WindowConfirm confirmMessage False]) \<and>
   (\<forall>i x. i < length (emitted (handleDeleteChat sc co chatId) s) \<and>
          emitted (handleDeleteChat sc co chatId) s ! i = DeleteConversation x \<longrightarrow>
          confirm co confirmMessage \<and>
          (\<exists>j < i. emitted (handleDeleteChat sc co chatId) s ! j =
                     WindowConfirm confirmMessage True))"
proof (cases "confirm co confirmMessage")
  case False
  have e: "emitted (handleDeleteChat sc co chatId) s =
        [StopPropagation, WindowConfirm confirmMessage False]"
    by (simp add: emitted_def handleDeleteChat_declined [OF False])
  have "[StopPropagation, WindowConfirm confirmMessage False] ! i \<noteq> DeleteConversation x"
    if "i < 2" for i x
  proof -
    from that have "i = 0 \<or> i = 1" by arith
    then show ?thesis by auto
  qed
  with e False show ?thesis
    by (simp add: handleDeleteChat_declined [OF False])
next
  case True
  obtain rest where r: "emitted (handleDeleteChat sc co chatId) s =
      StopPropagation # WindowConfirm confirmMessage True # DeleteConversation chatId # rest"
    using handleDeleteChat_confirmed_prefix [OF True] by blast
  have "\<exists>j < i. emitted (handleDeleteChat sc co chatId) s ! j =
                 WindowConfirm confirmMessage True"
    if "emitted (handleDeleteChat sc co chatId) s ! i = DeleteConversation x" for i x
  proof -
    have "i \<noteq> 0"
      using that r by (cases "i = 0") simp_all
    moreover have "i \<noteq> 1"
      using that r by (cases "i = 1") simp_all
    ultimately have "1 < i" by arith
    moreover have "emitted (handleDeleteChat sc co chatId) s ! 1 =
        WindowConfirm confirmMessage True"
      using r by simp
    ultimately show ?thesis by blast
  qed
  with True show ?thesis by blast
qed

theorem handleDeleteChat_requires_confirmation_witness:
  "\<not> confirm (sampleCollaborators False True) confirmMessage \<and>
   emitted (handleDeleteChat sampleScope (sampleCollaborators False True) ''c1'')
       sampleComponent =
     [StopPropagation, WindowConfirm confirmMessage False] \<and>
   chatsState (snd (handleDeleteChat sampleScope (sampleCollaborators False True) ''c1''
       sampleComponent)) = chatsState sampleComponent \<and>
   emitted (handleDeleteChat sampleScope (sampleCollaborators True True) ''c1'')
       sampleComponent ! 2 = DeleteConversation ''c1'' \<and>
   confirm (sampleCollaborators True True) confirmMessage"
proof -
  have a: "\<not> confirm (sampleCollaborators False True) confirmMessage"
    by (simp add: sampleCollaborators_def)
  have d: "emitted (handleDeleteChat sampleScope (sampleCollaborators False True) ''c1'')
        sampleComponent =
      [StopPropagation, WindowConfirm confirmMessage False] \<and>
     chatsState (snd (handleDeleteChat sampleScope (sampleCollaborators False True) ''c1''
        sampleComponent)) = chatsState sampleComponent"
    using a handleDeleteChat_requires_confirmation
      [of "sampleCollaborators False True" sampleScope "''c1''" sampleComponent]
    by blast
  have e: "emitted (handleDeleteChat sampleScope (sampleCollaborators True True) ''c1'')
      sampleComponent ! 2 = DeleteConversation ''c1''"
    by (simp add: sample_confirmed_run)
  have l: "2 < length (emitted (handleDeleteChat sampleScope (sampleCollaborators True True)
      ''c1'') sampleComponent)"
    by (simp add: sample_confirmed_run)
  have c: "confirm (sampleCollaborators True True) confirmMessage"
    using e l handleDeleteChat_requires_confirmation
      [of "sampleCollaborators True True" sampleScope "''c1''" sampleComponent]
    by blast
  from a d e c show ?thesis by blast
qed

text \<open>
  Claim C4. When the user confirms and \<^verbatim>\<open>deleteConversation\<close> fails, the handler
  logs the error and shows the alert, and the component's state is unchanged: the
  chat list is as before, \<^verbatim>\<open>onChatDelete\<close> is not invoked and the selection is not
  cleared (\<^verbatim>\<open>onChatSelect\<close> is not invoked).
\<close>

theorem handleDeleteChat_persistence_failure:
  assumes "confirm co confirmMessage" and "deleteConversation co chatId = Some err"
  shows "fst (handleDeleteChat sc co chatId s) = Inr () \<and>
         chatsState (snd (handleDeleteChat sc co chatId s)) = chatsState s \<and>
         emitted (handleDeleteChat sc co chatId) s =
           [StopPropagation, WindowConfirm confirmMessage True, DeleteConversation chatId,
            ConsoleError ''Error deleting chat:'', Alert failureMessage] \<and>
         Alert failureMessage \<in> set (emitted (handleDeleteChat sc co chatId) s) \<and>
         (\<forall>x. OnChatDelete x \<notin> set (emitted (handleDeleteChat sc co chatId) s)) \<and>
         (\<forall>c. OnChatSelect c \<notin> set (emitted (handleDeleteChat sc co chatId) s))"
  by (simp add: emitted_def handleDeleteChat_rejected [OF assms])

theorem handleDeleteChat_persistence_failure_witness:
  "confirm (sampleCollaborators True False) confirmMessage \<and>
   deleteConversation (sampleCollaborators True False) ''c1'' = Some (Thrown ''offline'') \<and>
   chatsState (snd (handleDeleteChat sampleScope (sampleCollaborators True False) ''c1''
       sampleComponent)) = chatsState sampleComponent \<and>
   Alert failureMessage \<in> set (emitted
       (handleDeleteChat sampleScope (sampleCollaborators True False) ''c1'') sampleComponent)"
proof -
  have a: "confirm (sampleCollaborators True False) confirmMessage"
    by (simp add: sampleCollaborators_def)
  have b: "deleteConversation (sampleCollaborators True False) ''c1'' =
      Some (Thrown ''offline'')"
    by (simp add: sampleCollaborators_def)
  show ?thesis
    using a b handleDeleteChat_persistence_failure [OF a b, of sampleScope sampleComponent]
    by simp
qed

section \<open>Failure containment\<close>

text \<open>
  Claim C8. Each of the two awaited persistence calls (loading the conversations,
  deleting a conversation) sits inside a try/catch, so a rejection never escapes the
  component: both handlers complete normally whatever the collaborators do. On a load
  failure the chat list is left unchanged.
\<close>

theorem persistence_failures_contained:
  "fst (loadChats co s) = Inr () \<and>
   fst (handleDeleteChat sc co chatId s) = Inr () \<and>
   (\<forall>e. getConversations co = Inl e \<longrightarrow> chatsState (snd (loadChats co s)) = chatsState s)"
  by (simp add: loadChats_returns handleDeleteChat_returns loadChats_failed)

theorem persistence_failures_contained_witness:
  "getConversations (sampleCollaborators True False) = Inl (Thrown ''offline'') \<and>
   fst (loadChats (sampleCollaborators True False) sampleComponent) = Inr () \<and>
   chatsState (snd (loadChats (sampleCollaborators True False) sampleComponent)) =
     chatsState sampleComponent"
proof -
  have a: "getConversations (sampleCollaborators True False) = Inl (Thrown ''offline'')"
    by (simp add: sampleCollaborators_def)
  show ?thesis
    using a persistence_failures_contained
      [of "sampleCollaborators True False" sampleComponent sampleScope "''c1''"]
    by simp
qed

end
